theory Spec2Isabelle
  imports Complex_Main
begin

section \<open>Conventions of the embedding\<close>

text \<open>
  The development embeds \<^verbatim>\<open>Linac/Input_File_Parsing/LinacAccLattice.py\<close>.
  Python floats are idealised as \<^typ>\<open>real\<close> numbers, Python integers are \<^typ>\<open>int\<close>.
  Every way the source can stop (a call of \<^verbatim>\<open>orbitFinalize\<close>, which prints its message
  and ends the process, or a Python exception) is a value of the type \<open>error\<close>.
  A method that mutates an object returns the mutated object; a method that can raise
  after it has mutated returns the pair of the raised error (if any) and the state reached.
\<close>

datatype error =
    Fatal string
  | AttributeError string
  | UnboundLocalError string
  | IndexError
  | ValueError
  | KeyError

section \<open>Nodes and their parts\<close>

text \<open>
  The part of an \<^verbatim>\<open>AccNode\<close> (a class of the ORBIT library) that the linac classes read and
  write: the number of parts, the total length and the array of part lengths.
  \<^verbatim>\<open>getLength()\<close> is the total length, \<^verbatim>\<open>getLength(i)\<close> and \<^verbatim>\<open>setLength(l, i)\<close> with
  \<open>i \<ge> 0\<close> read and write entry \<open>i\<close> of the array (an \<^verbatim>\<open>IndexError\<close> outside it), and a
  negative index addresses the total length.
\<close>

record acc_node =
  node_name :: string
  nParts :: int
  length_total :: real
  lengthArr :: "real list"

definition getLength_part :: "'a acc_node_scheme \<Rightarrow> int \<Rightarrow> error + real" where
  "getLength_part node index =
     (if index < 0 then Inr (length_total node)
      else if index < int (length (lengthArr node)) then Inr (lengthArr node ! nat index)
      else Inl IndexError)"

definition setLength_part :: "real \<Rightarrow> int \<Rightarrow> 'a acc_node_scheme \<Rightarrow> error + 'a acc_node_scheme" where
  "setLength_part l index node =
     (if index < 0 then Inr (node\<lparr>length_total := l\<rparr>)
      else if index < int (length (lengthArr node))
        then Inr (node\<lparr>lengthArr := (lengthArr node)[nat index := l]\<rparr>)
      else Inl IndexError)"

text \<open>\<^verbatim>\<open>xrange(n)\<close>: the integers \<open>0, \<dots>, n - 1\<close>, none when \<open>n \<le> 0\<close>.\<close>

definition xrange :: "int \<Rightarrow> int list" where
  "xrange n = map int [0 ..< nat n]"

subsection \<open>Quad.initialize\<close>

text \<open>The loop \<^verbatim>\<open>for i in xrange(nParts-2): self.setLength(lengthStep,i+1)\<close>.\<close>

fun setLength_steps :: "real \<Rightarrow> int list \<Rightarrow> 'a acc_node_scheme \<Rightarrow> error + 'a acc_node_scheme" where
  "setLength_steps lengthStep [] node = Inr node"
| "setLength_steps lengthStep (i # rest) node =
     (case setLength_part lengthStep (i + 1) node of
        Inl e \<Rightarrow> Inl e
      | Inr node' \<Rightarrow> setLength_steps lengthStep rest node')"

definition Quad_initialize :: "'a acc_node_scheme \<Rightarrow> error + 'a acc_node_scheme" where
  "Quad_initialize node =
     (let n = nParts node in
      if n < 2 \<and> n mod 2 \<noteq> 0
      then Inl (Fatal ''The Quad Combined Function class instance should have no less than 2 and even number of parts!'')
      else
        let lengthIN = (length_total node / real_of_int (n - 1)) / 2;
            lengthOUT = (length_total node / real_of_int (n - 1)) / 2;
            lengthStep = lengthIN + lengthOUT
        in case setLength_part lengthIN 0 node of
             Inl e \<Rightarrow> Inl e
           | Inr node1 \<Rightarrow>
               (case setLength_part lengthOUT (n - 1) node1 of
                  Inl e \<Rightarrow> Inl e
                | Inr node2 \<Rightarrow> setLength_steps lengthStep (xrange (n - 2)) node2))"

subsection \<open>BaseRF_Gap.initialize\<close>

definition BaseRF_Gap_initialize :: "'a acc_node_scheme \<Rightarrow> error + 'a acc_node_scheme" where
  "BaseRF_Gap_initialize node =
     (if nParts node \<noteq> 3 then Inl (Fatal ''The simple Rf gap should have 3 parts!'')
      else
        let len = length_total node
        in case setLength_part (len / 2) 0 node of
             Inl e \<Rightarrow> Inl e
           | Inr node1 \<Rightarrow>
               (case setLength_part 0 1 node1 of
                  Inl e \<Rightarrow> Inl e
                | Inr node2 \<Rightarrow> setLength_part (len / 2) 2 node2))"

section \<open>The RF gap and its cavity\<close>

text \<open>
  The bunch as far as this file touches it: the time and the kinetic energy of its
  synchronous particle, and the macro-particle coordinates, which only the transport
  functions of the external \<^verbatim>\<open>TPB\<close> module change.
\<close>

record bunch =
  sync_time :: real
  sync_kinEnergy :: real
  coords :: "real list list"

text \<open>
  The parameter dictionary of an \<^verbatim>\<open>RF_Cavity\<close>, one field per key. The constructor adds the
  first eight keys; \<^verbatim>\<open>setAmp\<close> writes the key \<^verbatim>\<open>"Amp"\<close>, which is a ninth key (absent until
  then).
\<close>

record rf_cavity =
  cav_name :: string
  frequency :: real
  phase :: real
  amp :: real
  designPhase :: real
  designAmp :: real
  firstGapTime :: real
  designArrivalTime :: real
  isDesignSetUp :: bool
  Amp :: "real option"

definition RF_Cavity_init :: "string \<Rightarrow> rf_cavity" where
  "RF_Cavity_init name =
     \<lparr>cav_name = name, frequency = 0, phase = 0, amp = 0, designPhase = 0, designAmp = 0,
      firstGapTime = 0, designArrivalTime = 0, isDesignSetUp = False, Amp = None\<rparr>"

text \<open>
  \<^verbatim>\<open>BaseRF_Gap.track\<close> calls \<^verbatim>\<open>rfCavity.frequency()\<close> and \<^verbatim>\<open>rfCavity.isDesignSetUp()\<close>.
  The class \<^verbatim>\<open>RF_Cavity\<close> defines neither (its methods are \<^verbatim>\<open>getFrequency\<close> and
  \<^verbatim>\<open>istDesignSetUp\<close>), so each call resolves only if one of the base classes
  \<^verbatim>\<open>NamedObject\<close>, \<^verbatim>\<open>ParamsDictObject\<close> of the ORBIT library provides the method. What the
  base classes provide under these two names is a parameter: \<open>None\<close> when the name is not
  defined there, and then the call raises \<^verbatim>\<open>AttributeError\<close>.
\<close>

record 'c inherited =
  inh_frequency :: "('c \<Rightarrow> real) option"
  inh_isDesignSetUp :: "('c \<Rightarrow> bool) option"

text \<open>An RF gap node: the node geometry and the parameters the tracking methods read.
  \<open>gapOffset\<close> is \<open>None\<close> when the node has no parameter of that name.\<close>

record rf_gap = acc_node +
  gapOffset :: "real option"
  E0TL :: real
  modePhase :: real
  isFirstGap :: bool

text \<open>\<^verbatim>\<open>math.fmod(x, y)\<close> for \<open>y \<noteq> 0\<close>: \<open>x - n * y\<close> with \<open>n\<close> the quotient truncated
  towards zero.\<close>

definition fmod :: "real \<Rightarrow> real \<Rightarrow> real" where
  "fmod x y = x - y * of_int (if 0 \<le> x / y then \<lfloor>x / y\<rfloor> else \<lceil>x / y\<rceil>)"

text \<open>
  \<^verbatim>\<open>BaseRF_Gap.track\<close>. \<open>TPB_drift\<close> is the external drift map. In the branch of a gap
  that is not the first one, the source reads the local variable \<^verbatim>\<open>syncPart\<close> before the
  assignment that follows the branch, which raises \<^verbatim>\<open>UnboundLocalError\<close>.
\<close>

definition BaseRF_Gap_track ::
  "('c rf_cavity_scheme) inherited \<Rightarrow> (bunch \<Rightarrow> real \<Rightarrow> bunch) \<Rightarrow> 'g rf_gap_scheme \<Rightarrow> int
     \<Rightarrow> bunch \<Rightarrow> 'c rf_cavity_scheme \<Rightarrow> error option \<times> bunch \<times> 'c rf_cavity_scheme" where
  "BaseRF_Gap_track inh TPB_drift gap index b rfCavity =
     (case getLength_part gap index of
        Inl e \<Rightarrow> (Some e, b, rfCavity)
      | Inr len \<Rightarrow>
          if index = 0 \<or> index = 2 then
            (let gapOffset0 = (case gapOffset gap of None \<Rightarrow> 0 | Some g \<Rightarrow> g);
                 gapOffset1 = (if index = 2 then - gapOffset0 else gapOffset0)
             in (None, TPB_drift b (len + gapOffset1), rfCavity))
          else
            (let modePhase_pi = modePhase gap * pi in
             case inh_frequency inh of
               None \<Rightarrow> (Some (AttributeError ''frequency''), b, rfCavity)
             | Some frequency_m \<Rightarrow>
                 (let freq = frequency_m rfCavity;
                      rfPhase = phase rfCavity + modePhase_pi
                  in if isFirstGap gap then
                       (let arrival_time = sync_time b;
                            rfCavity1 = rfCavity\<lparr>firstGapTime := arrival_time\<rparr>
                        in case inh_isDesignSetUp inh of
                             None \<Rightarrow> (Some (AttributeError ''isDesignSetUp''), b, rfCavity1)
                           | Some isDesignSetUp_m \<Rightarrow>
                               (let ph = (if isDesignSetUp_m rfCavity1
                                          then fmod (freq * (arrival_time - designArrivalTime rfCavity1) * 2 * pi + rfPhase) (2 * pi)
                                          else rfPhase)
                                in (None, b\<lparr>sync_kinEnergy := sync_kinEnergy b + E0TL gap * cos ph\<rparr>, rfCavity1)))
                     else (Some (UnboundLocalError ''syncPart''), b, rfCavity))))"

text \<open>\<^verbatim>\<open>BaseRF_Gap.trackDesignBunch\<close>, which uses the methods \<^verbatim>\<open>getFrequency\<close> and
  \<^verbatim>\<open>getDesignPhase\<close> that \<^verbatim>\<open>RF_Cavity\<close> defines.\<close>

definition BaseRF_Gap_trackDesignBunch ::
  "(bunch \<Rightarrow> real \<Rightarrow> bunch) \<Rightarrow> 'g rf_gap_scheme \<Rightarrow> int
     \<Rightarrow> bunch \<Rightarrow> 'c rf_cavity_scheme \<Rightarrow> error option \<times> bunch \<times> 'c rf_cavity_scheme" where
  "BaseRF_Gap_trackDesignBunch TPB_drift gap index b rfCavity =
     (case getLength_part gap index of
        Inl e \<Rightarrow> (Some e, b, rfCavity)
      | Inr len \<Rightarrow>
          if index = 0 \<or> index = 2 then
            (let gapOffset0 = (case gapOffset gap of None \<Rightarrow> 0 | Some g \<Rightarrow> g);
                 gapOffset1 = (if index = 2 then - gapOffset0 else gapOffset0)
             in (None, TPB_drift b (len + gapOffset1), rfCavity))
          else
            (let modePhase_pi = modePhase gap * pi;
                 arrival_time = sync_time b;
                 freq = frequency rfCavity;
                 rfPhase = designPhase rfCavity + modePhase_pi
             in if isFirstGap gap then
                  (None, b\<lparr>sync_kinEnergy := sync_kinEnergy b + E0TL gap * cos rfPhase\<rparr>,
                   rfCavity\<lparr>designArrivalTime := arrival_time\<rparr>)
                else
                  (let first_gap_arr_time = designArrivalTime rfCavity;
                       ph = fmod (freq * (arrival_time - first_gap_arr_time) * 2 * pi + rfPhase) (2 * pi)
                   in (None, b\<lparr>sync_kinEnergy := sync_kinEnergy b + E0TL gap * cos ph\<rparr>, rfCavity))))"

section \<open>Tiltable nodes\<close>

text \<open>
  A \<^verbatim>\<open>LinacNode\<close>: the angles of its two \<^verbatim>\<open>TiltElement\<close> children, its parameter \<^verbatim>\<open>"tilt"\<close>, and
  the instance attribute that \<^verbatim>\<open>self.__params\<close> names inside the class \<^verbatim>\<open>LinacNode\<close>, which
  Python spells \<^verbatim>\<open>_LinacNode__params\<close>. No statement of the file assigns that attribute
  (the constructor assigns \<^verbatim>\<open>_LinacNode__tiltNodeIN\<close> and \<^verbatim>\<open>_LinacNode__tiltNodeOUT\<close>; the
  parameter dictionary of the base class lives under the base class's own mangled name),
  so it is \<open>None\<close>, absent, after construction.
\<close>

record linac_node =
  tiltNodeIN :: real
  tiltNodeOUT :: real
  param_tilt :: real
  LinacNode_params :: "(string \<rightharpoonup> real) option"

text \<open>\<^verbatim>\<open>TiltElement()\<close> has the default angle \<open>0.\<close>; the parameter \<^verbatim>\<open>"tilt"\<close> is added with the
  angle of the entrance child.\<close>

definition TiltElement_init :: real where
  "TiltElement_init = 0"

definition LinacNode_init :: linac_node where
  "LinacNode_init =
     (let tiltIN = TiltElement_init; tiltOUT = TiltElement_init
      in \<lparr>tiltNodeIN = tiltIN, tiltNodeOUT = tiltOUT, param_tilt = tiltIN, LinacNode_params = None\<rparr>)"

definition setTiltAngle :: "real \<Rightarrow> linac_node \<Rightarrow> error option \<times> linac_node" where
  "setTiltAngle angle node =
     (case LinacNode_params node of
        None \<Rightarrow> (Some (AttributeError ''_LinacNode__params''), node)
      | Some d \<Rightarrow>
          (None, node\<lparr>LinacNode_params := Some (d(''tilt'' \<mapsto> angle)),
                       tiltNodeIN := angle,
                       tiltNodeOUT := (- 1) * angle\<rparr>))"

section \<open>The lattice: cavities and sequences by name\<close>

text \<open>\<^verbatim>\<open>LinacAccLattice.getRF_Cavity\<close> and \<^verbatim>\<open>getSequence\<close>: the loop returns at the first
  element whose name equals the argument; falling out of the loop returns \<^verbatim>\<open>None\<close>.
  \<open>getName\<close> is the name accessor of the stored objects.\<close>

fun getRF_Cavity :: "('c \<Rightarrow> string) \<Rightarrow> 'c list \<Rightarrow> string \<Rightarrow> 'c option" where
  "getRF_Cavity getName [] name = None"
| "getRF_Cavity getName (cav # rfCavities) name =
     (if name = getName cav then Some cav else getRF_Cavity getName rfCavities name)"

fun getSequence :: "('s \<Rightarrow> string) \<Rightarrow> 's list \<Rightarrow> string \<Rightarrow> 's option" where
  "getSequence getName [] name = None"
| "getSequence getName (seq # sequences) name =
     (if name = getName seq then Some seq else getSequence getName sequences name)"

section \<open>The lattice factory\<close>

text \<open>
  \<^verbatim>\<open>LinacLatticeFactory.getLinacAccLattice\<close> reads the elements of each sequence of the parsed
  linac tree, creates the nodes, inserts drifts, places the zero-length elements and
  collects the RF cavities.

  A parsed element (an object of the external \<^verbatim>\<open>linac_parser\<close>) is given by its type, its name
  and the parameters the factory reads, which are taken to be present; \<open>p_length\<close> is what
  both \<^verbatim>\<open>getLength()\<close> and \<^verbatim>\<open>getParam("length")\<close> return, and \<open>p_parentCavity\<close> is the
  parameter the source reads under the key \<^verbatim>\<open>"parentCvaity"\<close>.
\<close>

record parsed_node =
  p_type :: string
  p_name :: string
  p_pos :: real
  p_length :: real
  p_field :: real
  p_gapOffset :: real
  p_gapLength :: real
  p_amp :: real
  p_E0TL :: real
  p_modePhase :: real
  p_firstPhase :: real
  p_parentCavity :: string
  p_effLength :: real

record parsed_seq =
  ps_name :: string
  ps_length :: real
  ps_rfFrequency :: real
  ps_nodes :: "parsed_node list"

text \<open>
  The nodes the factory creates. The class of the node is \<open>n_kind\<close>. Python compares and
  finds these objects by identity (\<^verbatim>\<open>list.index\<close>, \<^verbatim>\<open>list.remove\<close>); \<open>n_id\<close> is that identity,
  a number taken from a counter at each construction. \<open>n_pos\<close> is the parameter \<^verbatim>\<open>"pos"\<close>,
  \<open>n_length\<close> is \<^verbatim>\<open>getLength()\<close>, \<open>n_rfCavity\<close> is the cavity an RF gap refers to, as its index
  in the factory's list \<^verbatim>\<open>accRF_Cavs\<close>, and \<open>n_children\<close> are the nodes attached to the body of
  a quad.
\<close>

datatype node_kind = Quad | BaseRF_Gap | Drift | MarkerLinacNode | DCorrectorV | DCorrectorH

record child_node =
  ch_kind :: node_kind
  ch_name :: string
  ch_pos :: real
  ch_effLength :: real

record seq_node =
  n_id :: nat
  n_kind :: node_kind
  n_name :: string
  n_pos :: real
  n_length :: real
  n_field :: real
  n_gapOffset :: real
  n_amp :: real
  n_E0TL :: real
  n_modePhase :: real
  n_firstPhase :: real
  n_effLength :: real
  n_isFirstGap :: bool
  n_rfCavity :: "nat option"
  n_children :: "child_node list"

record factory_cavity = rf_cavity +
  rfGaps :: "seq_node list"

definition zeroDistance :: real where
  "zeroDistance = 1 / 100000"

text \<open>A node as its constructor leaves it: length 0, no cavity, not a first gap.\<close>

definition AccNode_new :: "nat \<Rightarrow> node_kind \<Rightarrow> string \<Rightarrow> seq_node" where
  "AccNode_new i k name =
     \<lparr>n_id = i, n_kind = k, n_name = name, n_pos = 0, n_length = 0, n_field = 0,
      n_gapOffset = 0, n_amp = 0, n_E0TL = 0, n_modePhase = 0, n_firstPhase = 0,
      n_effLength = 0, n_isFirstGap = False, n_rfCavity = None, n_children = []\<rparr>"

text \<open>\<^verbatim>\<open>Sequence.addNode(node, index)\<close> with \<open>index \<ge> 0\<close> is \<^verbatim>\<open>list.insert\<close>, which appends when
  the index is past the end; with the default index it appends.\<close>

definition insert_at :: "nat \<Rightarrow> 'a \<Rightarrow> 'a list \<Rightarrow> 'a list" where
  "insert_at i x xs = take i xs @ x # drop i xs"

text \<open>\<^verbatim>\<open>nodes.index(node)\<close>: the first index of the object, \<^verbatim>\<open>ValueError\<close> when it is not in
  the list.\<close>

fun index_of :: "nat \<Rightarrow> seq_node list \<Rightarrow> nat option" where
  "index_of i [] = None"
| "index_of i (x # xs) =
     (if n_id x = i then Some 0
      else case index_of i xs of None \<Rightarrow> None | Some k \<Rightarrow> Some (Suc k))"

subsection \<open>Creating the nodes and grouping the RF gaps\<close>

text \<open>\<^verbatim>\<open>RF_Cavity.addRF_GapNode\<close>: the gap is appended, refers to the cavity (\<open>ci\<close> is the
  cavity's index) and is the first gap exactly when it is the only gap of the list.\<close>

definition addRF_GapNode :: "nat \<Rightarrow> factory_cavity \<Rightarrow> seq_node \<Rightarrow> factory_cavity \<times> seq_node" where
  "addRF_GapNode ci cav rfGap =
     (let rfGap' = rfGap\<lparr>n_rfCavity := Some ci,
                          n_isFirstGap := (length (rfGaps cav) + 1 = 1)\<rparr>
      in (cav\<lparr>rfGaps := rfGaps cav @ [rfGap']\<rparr>, rfGap'))"

text \<open>The state of the loop over the parsed elements of one sequence: the nodes of the
  sequence, the cavities of the whole lattice so far, the cavity names seen in this
  sequence, the deferred zero-length elements (each with its index in the element list,
  which identifies the parsed object) and the counter of object identities.\<close>

record scan_state =
  accNodes :: "seq_node list"
  accRF_Cavs :: "factory_cavity list"
  rf_cav_names :: "string list"
  thinNodes :: "(nat \<times> parsed_node) list"
  next_id :: nat

definition new_cavity :: "string \<Rightarrow> real \<Rightarrow> real \<Rightarrow> factory_cavity" where
  "new_cavity name firstPhase rfFrequency =
     \<lparr>cav_name = name, frequency = rfFrequency, phase = firstPhase, amp = 0,
      designPhase = firstPhase, designAmp = 1, firstGapTime = 0, designArrivalTime = 0,
      isDesignSetUp = False, Amp = Some 1, rfGaps = []\<rparr>"

definition scan_QUAD :: "parsed_node \<Rightarrow> scan_state \<Rightarrow> scan_state" where
  "scan_QUAD node st =
     (let accNode = (AccNode_new (next_id st) Quad (p_name node))
            \<lparr>n_pos := p_pos node, n_length := p_length node, n_field := p_field node\<rparr>
      in st\<lparr>accNodes := accNodes st @ [accNode], next_id := next_id st + 1\<rparr>)"

definition scan_RFGAP :: "real \<Rightarrow> parsed_node \<Rightarrow> scan_state \<Rightarrow> error + scan_state" where
  "scan_RFGAP rfFrequency node st =
     (let accNode0 = (AccNode_new (next_id st) BaseRF_Gap (p_name node))
            \<lparr>n_pos := p_pos node, n_length := p_gapLength node,
             n_gapOffset := p_gapOffset node, n_amp := p_amp node,
             n_E0TL := (1 / 1000) * p_E0TL node, n_modePhase := p_modePhase node,
             n_firstPhase := p_firstPhase node\<rparr>;
          rf_cav_name = p_parentCavity node;
          is_new = (rf_cav_name \<notin> set (rf_cav_names st));
          accNode1 = (if is_new then accNode0\<lparr>n_firstPhase := (pi / 180) * n_firstPhase accNode0\<rparr>
                      else accNode0);
          names1 = (if is_new then rf_cav_names st @ [rf_cav_name] else rf_cav_names st);
          cavs1 = (if is_new
                   then accRF_Cavs st @ [new_cavity rf_cav_name (n_firstPhase accNode1) rfFrequency]
                   else accRF_Cavs st)
      in if cavs1 = [] then Inl IndexError
         else
           (let ci = length cavs1 - 1;
                (cav', accNode2) = addRF_GapNode ci (cavs1 ! ci) accNode1
            in Inr (st\<lparr>accNodes := accNodes st @ [accNode2],
                        accRF_Cavs := cavs1[ci := cav'],
                        rf_cav_names := names1,
                        next_id := next_id st + 1\<rparr>)))"

text \<open>The loop \<^verbatim>\<open>for node in nodes\<close>; \<open>k\<close> is the index of the element.\<close>

fun scan_nodes :: "real \<Rightarrow> nat \<Rightarrow> parsed_node list \<Rightarrow> scan_state \<Rightarrow> error + scan_state" where
  "scan_nodes rfFrequency k [] st = Inr st"
| "scan_nodes rfFrequency k (node # rest) st =
     (if p_type node = ''QUAD'' then scan_nodes rfFrequency (Suc k) rest (scan_QUAD node st)
      else if p_type node = ''RFGAP'' then
        (case scan_RFGAP rfFrequency node st of
           Inl e \<Rightarrow> Inl e
         | Inr st' \<Rightarrow> scan_nodes rfFrequency (Suc k) rest st')
      else if p_length node \<noteq> 0 then Inl (Fatal ''there is a strange element!'')
      else scan_nodes rfFrequency (Suc k) rest (st\<lparr>thinNodes := thinNodes st @ [(k, node)]\<rparr>))"

subsection \<open>Inserting the drifts\<close>

definition Drift_new :: "nat \<Rightarrow> string \<Rightarrow> real \<Rightarrow> real \<Rightarrow> seq_node" where
  "Drift_new i seqName len pos =
     (AccNode_new i Drift (seqName @ '':drift''))\<lparr>n_length := len, n_pos := pos\<rparr>"

text \<open>The state of this stage and of the next one: the node list of the sequence and the
  counter of object identities.\<close>

type_synonym seq_state = "seq_node list \<times> nat"

text \<open>The drift before the first node.\<close>

definition first_drift :: "string \<Rightarrow> seq_node \<Rightarrow> seq_state \<Rightarrow> error + seq_state" where
  "first_drift seqName firstNode st =
     (case st of (nodes, nxt) \<Rightarrow>
        if \<bar>n_length firstNode / 2 - n_pos firstNode\<bar> > zeroDistance then
          (if n_length firstNode / 2 > n_pos firstNode
           then Inl (Fatal ''the first node is too long!'')
           else
             (let len = n_pos firstNode - n_length firstNode / 2;
                  drift = Drift_new nxt seqName len (len / 2)
              in Inr (insert_at 0 drift nodes, Suc nxt)))
        else Inr (nodes, nxt))"

text \<open>The drift after the last node.\<close>

definition last_drift :: "string \<Rightarrow> real \<Rightarrow> seq_node \<Rightarrow> seq_state \<Rightarrow> error + seq_state" where
  "last_drift seqName seqLength lastNode st =
     (case st of (nodes, nxt) \<Rightarrow>
        if \<bar>n_length lastNode / 2 + n_pos lastNode - seqLength\<bar> > zeroDistance then
          (if n_length lastNode / 2 + n_pos lastNode > seqLength
           then Inl (Fatal ''the last node is too long!'')
           else
             (let len = seqLength - (n_pos lastNode + n_length lastNode / 2);
                  drift = Drift_new nxt seqName len (n_pos lastNode + (n_length lastNode + len) / 2)
              in Inr (nodes @ [drift], Suc nxt)))
        else Inr (nodes, nxt))"

text \<open>The loop over the pairs \<open>(copyAccNodes[i], copyAccNodes[i+1])\<close>: the first argument is
  what is left of \<^verbatim>\<open>copyAccNodes\<close> from index \<open>i\<close> on.\<close>

fun pair_drifts :: "string \<Rightarrow> seq_node list \<Rightarrow> seq_state \<Rightarrow> error + seq_state" where
  "pair_drifts seqName (accNode0 # accNode1 # rest) (nodes, nxt) =
     (let dist = n_pos accNode1 - n_length accNode1 / 2 - (n_pos accNode0 + n_length accNode0 / 2)
      in if dist < 0 then Inl (Fatal ''two nodes are overlapping!'')
         else if dist > zeroDistance then
           (let drift = Drift_new nxt seqName dist (n_pos accNode0 + (n_length accNode0 + dist) / 2)
            in case index_of (n_id accNode1) nodes of
                 None \<Rightarrow> Inl ValueError
               | Some ind_of_node \<Rightarrow>
                   pair_drifts seqName (accNode1 # rest) (insert_at ind_of_node drift nodes, Suc nxt))
         else pair_drifts seqName (accNode1 # rest) (nodes, nxt))"
| "pair_drifts seqName rest st = Inr st"

text \<open>The whole stage. \<^verbatim>\<open>copyAccNodes[0]\<close> raises \<^verbatim>\<open>IndexError\<close> for a sequence without quads
  and RF gaps.\<close>

definition insert_drifts :: "string \<Rightarrow> real \<Rightarrow> seq_state \<Rightarrow> error + seq_state" where
  "insert_drifts seqName seqLength st =
     (let copyAccNodes = fst st
      in if copyAccNodes = [] then Inl IndexError
         else
           (let firstNode = copyAccNodes ! 0;
                lastNode = copyAccNodes ! (length copyAccNodes - 1)
            in case first_drift seqName firstNode st of
                 Inl e \<Rightarrow> Inl e
               | Inr st1 \<Rightarrow>
                   (case last_drift seqName seqLength lastNode st1 of
                      Inl e \<Rightarrow> Inl e
                    | Inr st2 \<Rightarrow> pair_drifts seqName copyAccNodes st2)))"

subsection \<open>Placing the zero-length elements\<close>

text \<open>The node made of a zero-length element: a corrector or a marker, of length 0.\<close>

definition thin_kind :: "parsed_node \<Rightarrow> node_kind" where
  "thin_kind node =
     (if p_type node = ''DCV'' then DCorrectorV
      else if p_type node = ''DCH'' then DCorrectorH
      else MarkerLinacNode)"

definition thin_child :: "parsed_node \<Rightarrow> real \<Rightarrow> child_node" where
  "thin_child node pos =
     \<lparr>ch_kind = thin_kind node, ch_name = p_name node, ch_pos = pos, ch_effLength = p_effLength node\<rparr>"

definition thin_accNode :: "nat \<Rightarrow> parsed_node \<Rightarrow> real \<Rightarrow> seq_node" where
  "thin_accNode i node pos =
     (AccNode_new i (thin_kind node) (p_name node))\<lparr>n_pos := pos, n_effLength := p_effLength node\<rparr>"

text \<open>\<^verbatim>\<open>quad.addChildNode(accNode, place = BODY, part_index = nParts/2 - 1, place_in_part =
  AFTER)\<close> on the quad object: the quad with that identity gets one more child.\<close>

fun addChildNode :: "nat \<Rightarrow> child_node \<Rightarrow> seq_node list \<Rightarrow> seq_node list" where
  "addChildNode q c [] = []"
| "addChildNode q c (x # xs) =
     (if n_id x = q then x\<lparr>n_children := n_children x @ [c]\<rparr> # xs
      else x # addChildNode q c xs)"

text \<open>The inner loop \<^verbatim>\<open>for quad in accQuads\<close> for one zero-length element: \<open>used\<close> is
  \<^verbatim>\<open>usedThinNodes\<close>, which gets the element once for every quad that takes it.\<close>

fun quad_loop :: "(nat \<times> parsed_node) \<Rightarrow> seq_node list \<Rightarrow> seq_node list \<times> (nat \<times> parsed_node) list
    \<Rightarrow> seq_node list \<times> (nat \<times> parsed_node) list" where
  "quad_loop node [] st = st"
| "quad_loop node (quad # accQuads) (nodes, used) =
     (let position = p_pos (snd node);
          pos = n_pos quad;
          L = n_length quad
      in if \<bar>position - pos\<bar> < zeroDistance \<or> (position > pos - L / 2 \<and> position < pos + L / 2)
         then quad_loop node accQuads
                (addChildNode (n_id quad) (thin_child (snd node) pos) nodes, used @ [node])
         else quad_loop node accQuads (nodes, used))"

fun quad_pass :: "(nat \<times> parsed_node) list \<Rightarrow> seq_node list \<Rightarrow> seq_node list \<times> (nat \<times> parsed_node) list
    \<Rightarrow> seq_node list \<times> (nat \<times> parsed_node) list" where
  "quad_pass [] accQuads st = st"
| "quad_pass (node # thin) accQuads st = quad_pass thin accQuads (quad_loop node accQuads st)"

text \<open>\<^verbatim>\<open>thinNodes.remove(node)\<close> for every element of \<^verbatim>\<open>usedThinNodes\<close>: the first occurrence of
  the object is removed, and \<^verbatim>\<open>ValueError\<close> is raised when there is none (the second
  removal of an element that two quads took).\<close>

fun remove_thin :: "nat \<Rightarrow> (nat \<times> parsed_node) list \<Rightarrow> error + (nat \<times> parsed_node) list" where
  "remove_thin k [] = Inl ValueError"
| "remove_thin k (x # xs) =
     (if fst x = k then Inr xs
      else case remove_thin k xs of Inl e \<Rightarrow> Inl e | Inr xs' \<Rightarrow> Inr (x # xs'))"

fun remove_used :: "(nat \<times> parsed_node) list \<Rightarrow> (nat \<times> parsed_node) list \<Rightarrow> error + (nat \<times> parsed_node) list" where
  "remove_used [] thin = Inr thin"
| "remove_used (node # used) thin =
     (case remove_thin (fst node) thin of
        Inl e \<Rightarrow> Inl e
      | Inr thin' \<Rightarrow> remove_used used thin')"

text \<open>\<^verbatim>\<open>__getDriftThinNode\<close>: the \<^verbatim>\<open>while\<close> loop of the binary search on the indices.\<close>

function bisect :: "real \<Rightarrow> seq_node list \<Rightarrow> nat \<Rightarrow> nat \<Rightarrow> nat" where
  "bisect position nodes ind_start ind_stop =
     (if ind_stop - ind_start > 1 then
        (let ind = (ind_stop + ind_start) div 2;
             accNode = nodes ! ind;
             pos = n_pos accNode - n_length accNode / 2
         in if position > pos then bisect position nodes ind ind_stop
            else bisect position nodes ind_start ind)
      else ind_start)"
  by pat_completeness auto
termination
  by (relation "measure (\<lambda>(position, nodes, ind_start, ind_stop). ind_stop - ind_start)") auto

definition getDriftThinNode :: "real \<Rightarrow> seq_node list \<Rightarrow> error + seq_node option" where
  "getDriftThinNode position nodes =
     (if nodes = [] then Inl IndexError
      else
        (let ind_start = bisect position nodes 0 (length nodes - 1);
             resNode = (if n_kind (nodes ! ind_start) = Drift then Some (nodes ! ind_start) else None)
         in case resNode of
              Some r \<Rightarrow> Inr (Some r)
            | None \<Rightarrow>
                (let accNode = nodes ! (length nodes - 1)
                 in if n_kind accNode = Drift \<and> n_pos accNode - n_length accNode / 2 \<le> position
                    then Inr (Some accNode) else Inr None)))"

text \<open>\<^verbatim>\<open>nodes.remove(driftNode)\<close> on the node list.\<close>

fun remove_node :: "nat \<Rightarrow> seq_node list \<Rightarrow> error + seq_node list" where
  "remove_node i [] = Inl ValueError"
| "remove_node i (x # xs) =
     (if n_id x = i then Inr xs
      else case remove_node i xs of Inl e \<Rightarrow> Inl e | Inr xs' \<Rightarrow> Inr (x # xs'))"

text \<open>The body of the second loop for one zero-length element that a drift takes.\<close>

definition place_in_drift :: "string \<Rightarrow> parsed_node \<Rightarrow> seq_node \<Rightarrow> seq_state \<Rightarrow> error + seq_state" where
  "place_in_drift seqName node driftNode st =
     (case st of (nodes, nxt) \<Rightarrow>
        let position = p_pos node;
            pos = n_pos driftNode;
            L = n_length driftNode
        in case index_of (n_id driftNode) nodes of
             None \<Rightarrow> Inl ValueError
           | Some ind_insertion \<Rightarrow>
               (let accNode = thin_accNode nxt node position
                in if \<bar>position - (pos - L / 2)\<bar> < zeroDistance
                   then Inr (insert_at ind_insertion accNode nodes, Suc nxt)
                   else if \<bar>position - (pos + L / 2)\<bar> < zeroDistance
                   then Inr (insert_at (ind_insertion + 1) accNode nodes, Suc nxt)
                   else
                     (let len0 = position - (pos - L / 2);
                          drift0 = Drift_new (Suc nxt) seqName len0 ((pos - L / 2) + len0 / 2);
                          len1 = (pos + L / 2) - position;
                          drift1 = Drift_new (Suc (Suc nxt)) seqName len1 ((pos + L / 2) - len1 / 2)
                      in case remove_node (n_id driftNode) nodes of
                           Inl e \<Rightarrow> Inl e
                         | Inr nodes1 \<Rightarrow>
                             Inr (insert_at (ind_insertion + 2) drift1
                                    (insert_at (ind_insertion + 1) accNode
                                       (insert_at ind_insertion drift0 nodes1)),
                                  Suc (Suc (Suc nxt))))))"

text \<open>The second loop \<^verbatim>\<open>for node in thinNodes\<close>; the result carries \<^verbatim>\<open>usedThinNodes\<close>.\<close>

fun drift_pass :: "string \<Rightarrow> (nat \<times> parsed_node) list \<Rightarrow> seq_state \<times> (nat \<times> parsed_node) list
    \<Rightarrow> error + seq_state \<times> (nat \<times> parsed_node) list" where
  "drift_pass seqName [] acc = Inr acc"
| "drift_pass seqName (node # thin) (st, used) =
     (case getDriftThinNode (p_pos (snd node)) (fst st) of
        Inl e \<Rightarrow> Inl e
      | Inr None \<Rightarrow> drift_pass seqName thin (st, used)
      | Inr (Some driftNode) \<Rightarrow>
          (case place_in_drift seqName (snd node) driftNode st of
             Inl e \<Rightarrow> Inl e
           | Inr st' \<Rightarrow> drift_pass seqName thin (st', used @ [node])))"

subsection \<open>One sequence, and the lattice\<close>

text \<open>What the factory builds for one sequence: the sequence with its nodes, and the
  zero-length elements it could not place (they are printed as a warning).\<close>

record sequence =
  seq_name :: string
  seq_length :: real
  seq_position :: real
  linacNodes :: "seq_node list"

text \<open>The body of the loop \<^verbatim>\<open>for seq in sequences\<close>. The state that passes from one sequence
  to the next is the list of cavities, the counter of identities and \<^verbatim>\<open>seqPosition\<close>.\<close>

definition build_sequence ::
  "parsed_seq \<Rightarrow> factory_cavity list \<times> nat \<times> real
     \<Rightarrow> error + (sequence \<times> (nat \<times> parsed_node) list) \<times> (factory_cavity list \<times> nat \<times> real)" where
  "build_sequence seq st =
     (case st of (cavs, nxt, seqPosition) \<Rightarrow>
        case scan_nodes (ps_rfFrequency seq) 0 (ps_nodes seq)
               \<lparr>accNodes = [], accRF_Cavs = cavs, rf_cav_names = [], thinNodes = [], next_id = nxt\<rparr> of
          Inl e \<Rightarrow> Inl e
        | Inr sc \<Rightarrow>
            (case insert_drifts (ps_name seq) (ps_length seq) (accNodes sc, next_id sc) of
               Inl e \<Rightarrow> Inl e
             | Inr (nodes1, nxt1) \<Rightarrow>
                 (let accQuads = filter (\<lambda>n. n_kind n = Quad) nodes1;
                      (nodes2, used2) = quad_pass (thinNodes sc) accQuads (nodes1, [])
                  in case remove_used used2 (thinNodes sc) of
                       Inl e \<Rightarrow> Inl e
                     | Inr thin2 \<Rightarrow>
                         (case drift_pass (ps_name seq) thin2 ((nodes2, nxt1), []) of
                            Inl e \<Rightarrow> Inl e
                          | Inr ((nodes3, nxt3), used3) \<Rightarrow>
                              (case remove_used used3 thin2 of
                                 Inl e \<Rightarrow> Inl e
                               | Inr thin3 \<Rightarrow>
                                   Inr ((\<lparr>seq_name = ps_name seq, seq_length = ps_length seq,
                                          seq_position = seqPosition, linacNodes = nodes3\<rparr>, thin3),
                                        (accRF_Cavs sc, nxt3, seqPosition + ps_length seq)))))))"

text \<open>The loop over the sequences.\<close>

fun build_sequences ::
  "parsed_seq list \<Rightarrow> factory_cavity list \<times> nat \<times> real
     \<Rightarrow> error + sequence list \<times> factory_cavity list" where
  "build_sequences [] st = Inr ([], fst st)"
| "build_sequences (seq # seqs) st =
     (case build_sequence seq st of
        Inl e \<Rightarrow> Inl e
      | Inr ((accSeq, unused), st') \<Rightarrow>
          (case build_sequences seqs st' of
             Inl e \<Rightarrow> Inl e
           | Inr (accSeqs, cavs) \<Rightarrow> Inr (accSeq # accSeqs, cavs)))"

text \<open>The lattice: its nodes, its sequences and its cavities.\<close>

record linac_lattice =
  lattice_nodes :: "seq_node list"
  lattice_sequences :: "sequence list"
  lattice_rfCavities :: "factory_cavity list"

text \<open>\<^verbatim>\<open>list.index\<close> on the sequence names of the tree.\<close>

fun name_index :: "string \<Rightarrow> string list \<Rightarrow> nat option" where
  "name_index name [] = None"
| "name_index name (x # xs) =
     (if x = name then Some 0
      else case name_index name xs of None \<Rightarrow> None | Some k \<Rightarrow> Some (Suc k))"

text \<open>The check that the requested names are consecutive sequence names of the tree:
  \<open>prev\<close> is \<open>None\<close> for the first name (\<^verbatim>\<open>count = 0\<close>) and the previous index afterwards.\<close>

fun check_names :: "string list \<Rightarrow> string list \<Rightarrow> nat option \<Rightarrow> error option" where
  "check_names seqencesLocalNames [] prev = None"
| "check_names seqencesLocalNames (name # names) prev =
     (case name_index name seqencesLocalNames of
        None \<Rightarrow> Some ValueError
      | Some ind \<Rightarrow>
          (if (case prev of None \<Rightarrow> False | Some ind_old \<Rightarrow> ind \<noteq> ind_old + 1)
           then Some (Fatal ''sequence names array is wrong!'')
           else check_names seqencesLocalNames names (Some ind)))"

definition getLinacAccLattice :: "parsed_seq list \<Rightarrow> string list \<Rightarrow> error + linac_lattice" where
  "getLinacAccLattice ltree_seqs names =
     (if length names < 1 then Inl (Fatal ''you have to specify the names array!'')
      else
        (let seqencesLocalNames = map ps_name ltree_seqs
         in case check_names seqencesLocalNames names None of
              Some e \<Rightarrow> Inl e
            | None \<Rightarrow>
                (case name_index (names ! 0) seqencesLocalNames of
                   None \<Rightarrow> Inl ValueError
                 | Some ind_start \<Rightarrow>
                     (let sequences = take (length names) (drop ind_start ltree_seqs)
                      in case build_sequences sequences ([], 0, 0) of
                           Inl e \<Rightarrow> Inl e
                         | Inr (accSeqs, cavs) \<Rightarrow>
                             Inr \<lparr>lattice_nodes = concat (map linacNodes accSeqs),
                                  lattice_sequences = accSeqs,
                                  lattice_rfCavities = cavs\<rparr>))))"

subsection \<open>The extents of the nodes of a sequence\<close>











section \<open>Tracking a bunch through the lattice\<close>

text \<open>
  \<^verbatim>\<open>LinacAccLattice.trackBunch\<close> and \<^verbatim>\<open>trackDesignBunch\<close> hand a bunch object to the nodes
  through the dictionary \<^verbatim>\<open>paramsDict\<close>. Bunch objects live in a store: \<open>heap\<close> maps the
  address of an object to its value and \<open>next_free\<close> is the address the next constructed
  object gets, above every address in use. \<open>cavities\<close> is the state of the RF cavities,
  which the nodes share.
\<close>

record 'c world =
  heap :: "nat \<Rightarrow> bunch"
  next_free :: nat
  cavities :: 'c

text \<open>The action the two methods register: \<^verbatim>\<open>node.track(paramsDict)\<close> or
  \<^verbatim>\<open>node.trackDesignBunch(paramsDict)\<close>. Every tracking method of the file reads its bunch
  as \<^verbatim>\<open>paramsDict["bunch"]\<close> and works on that object; \<open>node_track\<close> is what the node does
  to the bunch and to the cavities.\<close>

definition node_action ::
  "('n \<Rightarrow> bunch \<Rightarrow> 'c \<Rightarrow> error option \<times> bunch \<times> 'c) \<Rightarrow> (string \<rightharpoonup> nat) \<Rightarrow> 'n \<Rightarrow> 'c world
     \<Rightarrow> error option \<times> 'c world" where
  "node_action node_track paramsDict node w =
     (case paramsDict ''bunch'' of
        None \<Rightarrow> (Some KeyError, w)
      | Some a \<Rightarrow>
          (case node_track node (heap w a) (cavities w) of
             (e, b', c') \<Rightarrow> (e, w\<lparr>heap := (heap w)(a := b'), cavities := c'\<rparr>)))"

text \<open>\<^verbatim>\<open>trackActions\<close> of the external \<^verbatim>\<open>AccLattice\<close> performs the action at the nodes in
  lattice order; \<open>nodes\<close> is that order (a node once for each of its parts). An exception
  ends the pass.\<close>

fun trackActions ::
  "('n \<Rightarrow> bunch \<Rightarrow> 'c \<Rightarrow> error option \<times> bunch \<times> 'c) \<Rightarrow> (string \<rightharpoonup> nat) \<Rightarrow> 'n list \<Rightarrow> 'c world
     \<Rightarrow> error option \<times> 'c world" where
  "trackActions node_track paramsDict [] w = (None, w)"
| "trackActions node_track paramsDict (node # nodes) w =
     (case node_action node_track paramsDict node w of
        (Some e, w') \<Rightarrow> (Some e, w')
      | (None, w') \<Rightarrow> trackActions node_track paramsDict nodes w')"

definition trackBunch ::
  "('n \<Rightarrow> bunch \<Rightarrow> 'c \<Rightarrow> error option \<times> bunch \<times> 'c) \<Rightarrow> 'n list \<Rightarrow> nat \<Rightarrow> (string \<rightharpoonup> nat) \<Rightarrow> 'c world
     \<Rightarrow> error option \<times> 'c world" where
  "trackBunch node_track nodes bunch paramsDict w =
     (let paramsDict1 = paramsDict(''bunch'' \<mapsto> bunch);
          w1 = w\<lparr>heap := (heap w)(bunch := (heap w bunch)\<lparr>sync_time := 0\<rparr>)\<rparr>
      in trackActions node_track paramsDict1 nodes w1)"

text \<open>\<^verbatim>\<open>Bunch()\<close> makes an empty bunch at a new address; \<open>copyEmptyBunchTo src dst\<close> is the
  external method that copies the attributes of a bunch, without its macro-particles,
  to the target.\<close>

definition Bunch_init :: bunch where
  "Bunch_init = \<lparr>sync_time = 0, sync_kinEnergy = 0, coords = []\<rparr>"

definition trackDesignBunch ::
  "('n \<Rightarrow> bunch \<Rightarrow> 'c \<Rightarrow> error option \<times> bunch \<times> 'c) \<Rightarrow> (bunch \<Rightarrow> bunch \<Rightarrow> bunch) \<Rightarrow> 'n list \<Rightarrow> nat
     \<Rightarrow> (string \<rightharpoonup> nat) option \<Rightarrow> 'c world \<Rightarrow> error option \<times> 'c world" where
  "trackDesignBunch node_trackDesignBunch copyEmptyBunchTo nodes bunch_in paramsDict w =
     (let paramsDict0 = (case paramsDict of None \<Rightarrow> Map.empty | Some d \<Rightarrow> d);
          bunch = next_free w;
          w1 = w\<lparr>heap := (heap w)(bunch := Bunch_init), next_free := Suc (next_free w)\<rparr>;
          w2 = w1\<lparr>heap := (heap w1)(bunch := copyEmptyBunchTo (heap w1 bunch_in) (heap w1 bunch))\<rparr>;
          w3 = w2\<lparr>heap := (heap w2)(bunch := (heap w2 bunch)\<lparr>sync_time := 0\<rparr>)\<rparr>;
          paramsDict1 = paramsDict0(''bunch'' \<mapsto> bunch)
      in trackActions node_trackDesignBunch paramsDict1 nodes w3)"

text \<open>What a pass does to one bunch value: the nodes in order, up to the first
  exception.\<close>

fun track_steps ::
  "('n \<Rightarrow> bunch \<Rightarrow> 'c \<Rightarrow> error option \<times> bunch \<times> 'c) \<Rightarrow> 'n list \<Rightarrow> bunch \<Rightarrow> 'c
     \<Rightarrow> error option \<times> bunch \<times> 'c" where
  "track_steps node_track [] b c = (None, b, c)"
| "track_steps node_track (node # nodes) b c =
     (case node_track node b c of
        (Some e, b', c') \<Rightarrow> (Some e, b', c')
      | (None, b', c') \<Rightarrow> track_steps node_track nodes b' c')"

section \<open>Properties of the part lengths\<close>







text \<open>
  Claim C5. The claim asks \<^verbatim>\<open>Quad.initialize\<close> to fail for every odd part count and every
  part count below 2. The guard of the source is \<^verbatim>\<open>nParts < 2 and nParts%2 != 0\<close>, a
  conjunction, so a quad with the odd part count 3 passes it: initialisation succeeds and
  gives the part lengths \<open>L/4, L/2, L/4\<close>.
\<close>

theorem Quad_initialize_odd_part_count:
  "Quad_initialize \<lparr>node_name = ''q'', nParts = 3, length_total = 1, lengthArr = [0, 0, 0]\<rparr> =
     Inr \<lparr>node_name = ''q'', nParts = 3, length_total = 1, lengthArr = [1 / 4, 1 / 2, 1 / 4]\<rparr>"
  by (simp add: Quad_initialize_def setLength_part_def xrange_def upt_rec Let_def)

section \<open>Properties of the RF gap\<close>

lemma BaseRF_Gap_initialize_three:
  assumes inv: "length (lengthArr gap) = nat (nParts gap)" and n3: "nParts gap = 3"
  shows "BaseRF_Gap_initialize gap =
           Inr (gap\<lparr>lengthArr := [length_total gap / 2, 0, length_total gap / 2]\<rparr>)"
proof -
  from inv n3 obtain x y z where arr: "lengthArr gap = [x, y, z]"
    by (cases "lengthArr gap"; simp; rename_tac a l, case_tac l; simp; rename_tac a l, case_tac l; simp)
  show ?thesis using n3 arr
    by (simp add: BaseRF_Gap_initialize_def setLength_part_def Let_def)
qed

text \<open>
  Claim C7. \<^verbatim>\<open>BaseRF_Gap.initialize\<close> fails if and only if the part count differs from 3,
  and then with the fatal message; with 3 parts (a part array of 3 entries) it succeeds,
  the part lengths are \<open>L/2, 0, L/2\<close>, and tracking through part 0 drifts the bunch by the
  part length plus the gap offset, through part 2 by the part length minus the gap offset
  (the offset is 0 when the node has no such parameter).
\<close>

theorem BaseRF_Gap_three_parts:
  assumes inv: "length (lengthArr gap) = nat (nParts gap)"
  shows "((\<exists>e. BaseRF_Gap_initialize gap = Inl e) \<longleftrightarrow> nParts gap \<noteq> 3) \<and>
         (nParts gap \<noteq> 3 \<longrightarrow> (\<exists>msg. BaseRF_Gap_initialize gap = Inl (Fatal msg))) \<and>
         (nParts gap = 3 \<longrightarrow>
            (\<exists>gap'. BaseRF_Gap_initialize gap = Inr gap' \<and>
               lengthArr gap' = [length_total gap / 2, 0, length_total gap / 2] \<and>
               BaseRF_Gap_track inh TPB_drift gap' 0 b cav =
                 (None, TPB_drift b (length_total gap / 2 + (case gapOffset gap of None \<Rightarrow> 0 | Some g \<Rightarrow> g)), cav) \<and>
               BaseRF_Gap_track inh TPB_drift gap' 2 b cav =
                 (None, TPB_drift b (length_total gap / 2 - (case gapOffset gap of None \<Rightarrow> 0 | Some g \<Rightarrow> g)), cav)))"
proof (cases "nParts gap = 3")
  case True
  let ?gap' = "gap\<lparr>lengthArr := [length_total gap / 2, 0, length_total gap / 2]\<rparr>"
  have init: "BaseRF_Gap_initialize gap = Inr ?gap'"
    by (rule BaseRF_Gap_initialize_three[OF inv True])
  have t0: "BaseRF_Gap_track inh TPB_drift ?gap' 0 b cav =
       (None, TPB_drift b (length_total gap / 2 + (case gapOffset gap of None \<Rightarrow> 0 | Some g \<Rightarrow> g)), cav)"
    by (simp add: BaseRF_Gap_track_def getLength_part_def Let_def)
  have t2: "BaseRF_Gap_track inh TPB_drift ?gap' 2 b cav =
       (None, TPB_drift b (length_total gap / 2 - (case gapOffset gap of None \<Rightarrow> 0 | Some g \<Rightarrow> g)), cav)"
    by (simp add: BaseRF_Gap_track_def getLength_part_def Let_def)
  show ?thesis using True init t0 t2 by simp
next
  case False
  then show ?thesis by (simp add: BaseRF_Gap_initialize_def)
qed

text \<open>A gap of length 4 with offset 1: the drifts are by 3 and by 1.\<close>

theorem BaseRF_Gap_three_parts_witness:
  "length (lengthArr \<lparr>node_name = ''g'', nParts = 3, length_total = 4, lengthArr = [0, 0, 0],
       gapOffset = Some 1, E0TL = 0, modePhase = 0, isFirstGap = True\<rparr>) = nat 3 \<and>
   BaseRF_Gap_initialize \<lparr>node_name = ''g'', nParts = 3, length_total = 4, lengthArr = [0, 0, 0],
       gapOffset = Some 1, E0TL = 0, modePhase = 0, isFirstGap = True\<rparr> =
     Inr \<lparr>node_name = ''g'', nParts = 3, length_total = 4, lengthArr = [2, 0, 2],
       gapOffset = Some 1, E0TL = 0, modePhase = 0, isFirstGap = True\<rparr> \<and>
   BaseRF_Gap_track \<lparr>inh_frequency = None, inh_isDesignSetUp = None\<rparr> (\<lambda>b l. b\<lparr>sync_time := sync_time b + l\<rparr>)
      \<lparr>node_name = ''g'', nParts = 3, length_total = 4, lengthArr = [2, 0, 2],
       gapOffset = Some 1, E0TL = 0, modePhase = 0, isFirstGap = True\<rparr> 0
      \<lparr>sync_time = 0, sync_kinEnergy = 1, coords = []\<rparr> (RF_Cavity_init ''c'') =
     (None, \<lparr>sync_time = 3, sync_kinEnergy = 1, coords = []\<rparr>, RF_Cavity_init ''c'') \<and>
   BaseRF_Gap_track \<lparr>inh_frequency = None, inh_isDesignSetUp = None\<rparr> (\<lambda>b l. b\<lparr>sync_time := sync_time b + l\<rparr>)
      \<lparr>node_name = ''g'', nParts = 3, length_total = 4, lengthArr = [2, 0, 2],
       gapOffset = Some 1, E0TL = 0, modePhase = 0, isFirstGap = True\<rparr> 2
      \<lparr>sync_time = 0, sync_kinEnergy = 1, coords = []\<rparr> (RF_Cavity_init ''c'') =
     (None, \<lparr>sync_time = 1, sync_kinEnergy = 1, coords = []\<rparr>, RF_Cavity_init ''c'')"
proof -
  let ?gap = "\<lparr>node_name = ''g'', nParts = 3, length_total = 4, lengthArr = [0, 0, 0],
       gapOffset = Some 1, E0TL = 0, modePhase = 0, isFirstGap = True\<rparr>"
  have inv: "length (lengthArr ?gap) = nat (nParts ?gap)" by simp
  have init: "BaseRF_Gap_initialize ?gap = Inr (?gap\<lparr>lengthArr := [2, 0, 2]\<rparr>)"
    by (simp add: BaseRF_Gap_initialize_def setLength_part_def Let_def)
  from init BaseRF_Gap_three_parts[OF inv, of "\<lparr>inh_frequency = None, inh_isDesignSetUp = None\<rparr>"
      "\<lambda>b l. b\<lparr>sync_time := sync_time b + l\<rparr>" "\<lparr>sync_time = 0, sync_kinEnergy = 1, coords = []\<rparr>"
      "RF_Cavity_init ''c''"]
  show ?thesis by auto
qed

text \<open>
  Claim C1. The claim describes a design pass through the first gap that records the design
  arrival time and marks the cavity as design-referenced, and an operational pass that
  records the arrival time and computes the phase. In the source the design pass records
  the bunch's time as the design arrival time but leaves the flag \<^verbatim>\<open>isDesignSetUp\<close> as it
  was (nothing calls \<^verbatim>\<open>setDesignSetUp\<close>), and the operational pass through part 1 stops at
  \<^verbatim>\<open>rfCavity.frequency()\<close> with an \<^verbatim>\<open>AttributeError\<close>, before it records or computes
  anything, as long as the library's base classes define no method of that name.
\<close>

theorem first_gap_design_then_track:
  assumes first: "isFirstGap gap" and parts: "length (lengthArr gap) = 3"
      and nofreq: "inh_frequency inh = None"
  shows "BaseRF_Gap_trackDesignBunch TPB_drift gap 1 b cav =
           (None, b\<lparr>sync_kinEnergy := sync_kinEnergy b + E0TL gap * cos (designPhase cav + modePhase gap * pi)\<rparr>,
            cav\<lparr>designArrivalTime := sync_time b\<rparr>) \<and>
         isDesignSetUp (cav\<lparr>designArrivalTime := sync_time b\<rparr>) = isDesignSetUp cav \<and>
         BaseRF_Gap_track inh TPB_drift gap 1 b' cav' = (Some (AttributeError ''frequency''), b', cav')"
  using first parts nofreq
  by (simp add: BaseRF_Gap_trackDesignBunch_def BaseRF_Gap_track_def getLength_part_def Let_def)

text \<open>A first gap met by the design bunch at time 5 and by the tracked bunch at time 7.\<close>

theorem first_gap_design_then_track_witness:
  "isFirstGap \<lparr>node_name = ''g'', nParts = 3, length_total = 0, lengthArr = [0, 0, 0],
       gapOffset = None, E0TL = 1, modePhase = 0, isFirstGap = True\<rparr> \<and>
   BaseRF_Gap_trackDesignBunch (\<lambda>b l. b)
      \<lparr>node_name = ''g'', nParts = 3, length_total = 0, lengthArr = [0, 0, 0],
       gapOffset = None, E0TL = 1, modePhase = 0, isFirstGap = True\<rparr> 1
      \<lparr>sync_time = 5, sync_kinEnergy = 2, coords = []\<rparr> (RF_Cavity_init ''c'') =
     (None, \<lparr>sync_time = 5, sync_kinEnergy = 3, coords = []\<rparr>,
      (RF_Cavity_init ''c'')\<lparr>designArrivalTime := 5\<rparr>) \<and>
   isDesignSetUp ((RF_Cavity_init ''c'')\<lparr>designArrivalTime := 5\<rparr>) = False \<and>
   BaseRF_Gap_track \<lparr>inh_frequency = None, inh_isDesignSetUp = None\<rparr> (\<lambda>b l. b)
      \<lparr>node_name = ''g'', nParts = 3, length_total = 0, lengthArr = [0, 0, 0],
       gapOffset = None, E0TL = 1, modePhase = 0, isFirstGap = True\<rparr> 1
      \<lparr>sync_time = 7, sync_kinEnergy = 3, coords = []\<rparr> ((RF_Cavity_init ''c'')\<lparr>designArrivalTime := 5\<rparr>) =
     (Some (AttributeError ''frequency''), \<lparr>sync_time = 7, sync_kinEnergy = 3, coords = []\<rparr>,
      (RF_Cavity_init ''c'')\<lparr>designArrivalTime := 5\<rparr>)"
proof -
  let ?gap = "\<lparr>node_name = ''g'', nParts = 3, length_total = 0, lengthArr = [0, 0, 0],
       gapOffset = None, E0TL = 1, modePhase = 0, isFirstGap = True\<rparr>"
  let ?inh = "\<lparr>inh_frequency = None, inh_isDesignSetUp = None\<rparr> :: rf_cavity inherited"
  have first: "isFirstGap ?gap" by simp
  have parts: "length (lengthArr ?gap) = 3" by simp
  have nofreq: "inh_frequency ?inh = None" by simp
  from first_gap_design_then_track[OF first parts nofreq, of "\<lambda>b l. b"
      "\<lparr>sync_time = 5, sync_kinEnergy = 2, coords = []\<rparr>" "RF_Cavity_init ''c''"
      "\<lparr>sync_time = 7, sync_kinEnergy = 3, coords = []\<rparr>" "(RF_Cavity_init ''c'')\<lparr>designArrivalTime := 5\<rparr>"]
  show ?thesis by (simp add: RF_Cavity_init_def)
qed

text \<open>
  Claim C2. For a gap that is not the first gap of its cavity the claim gives the phase
  \<open>(frequency * (t\<^sub>i - t\<^sub>1) * 2 * pi + phase_ref) mod 2 * pi\<close>. In the source the operational
  pass through part 1 of such a gap never reaches the energy kick: it raises
  \<^verbatim>\<open>AttributeError\<close> at \<^verbatim>\<open>rfCavity.frequency()\<close>, or, were that method available,
  \<^verbatim>\<open>UnboundLocalError\<close> at \<^verbatim>\<open>syncPart.time()\<close>; bunch and cavity are left unchanged.
\<close>

theorem later_gap_track_raises:
  assumes later: "\<not> isFirstGap gap" and parts: "length (lengthArr gap) = 3"
  shows "\<exists>e. BaseRF_Gap_track inh TPB_drift gap 1 b cav = (Some e, b, cav) \<and>
             (e = AttributeError ''frequency'' \<or> e = UnboundLocalError ''syncPart'')"
  using later parts
  by (cases "inh_frequency inh") (simp_all add: BaseRF_Gap_track_def getLength_part_def Let_def)

text \<open>The literal inputs of the claim (frequency \<open>4 * 10\<^sup>8\<close>, time difference
  \<open>1.25 * 10\<^sup>-\<^sup>9\<close>, reference phase 0), with both method names resolved.\<close>

theorem later_gap_track_raises_witness:
  "\<not> isFirstGap \<lparr>node_name = ''g2'', nParts = 3, length_total = 0, lengthArr = [0, 0, 0],
       gapOffset = None, E0TL = 1, modePhase = 0, isFirstGap = False\<rparr> \<and>
   BaseRF_Gap_track \<lparr>inh_frequency = Some frequency, inh_isDesignSetUp = Some isDesignSetUp\<rparr> (\<lambda>b l. b)
      \<lparr>node_name = ''g2'', nParts = 3, length_total = 0, lengthArr = [0, 0, 0],
       gapOffset = None, E0TL = 1, modePhase = 0, isFirstGap = False\<rparr> 1
      \<lparr>sync_time = 125 / 10 ^ 11, sync_kinEnergy = 3, coords = []\<rparr>
      ((RF_Cavity_init ''c'')\<lparr>frequency := 4 * 10 ^ 8\<rparr>) =
     (Some (UnboundLocalError ''syncPart''), \<lparr>sync_time = 125 / 10 ^ 11, sync_kinEnergy = 3, coords = []\<rparr>,
      (RF_Cavity_init ''c'')\<lparr>frequency := 4 * 10 ^ 8\<rparr>)"
proof -
  let ?gap = "\<lparr>node_name = ''g2'', nParts = 3, length_total = 0, lengthArr = [0, 0, 0],
       gapOffset = None, E0TL = 1, modePhase = 0, isFirstGap = False\<rparr>"
  let ?inh = "\<lparr>inh_frequency = Some frequency, inh_isDesignSetUp = Some isDesignSetUp\<rparr> :: rf_cavity inherited"
  have later: "\<not> isFirstGap ?gap" by simp
  have parts: "length (lengthArr ?gap) = 3" by simp
  from later_gap_track_raises[OF later parts, of ?inh "\<lambda>b l. b"
      "\<lparr>sync_time = 125 / 10 ^ 11, sync_kinEnergy = 3, coords = []\<rparr>"
      "(RF_Cavity_init ''c'')\<lparr>frequency := 4 * 10 ^ 8\<rparr>"]
  show ?thesis by (auto simp: BaseRF_Gap_track_def getLength_part_def Let_def)
qed

text \<open>What the operational pass through a first gap computes once both method names
  resolve.\<close>

lemma BaseRF_Gap_track_first_gap_resolved:
  assumes first: "isFirstGap gap" and parts: "length (lengthArr gap) = 3"
      and freq: "inh_frequency inh = Some frequency" and ds: "inh_isDesignSetUp inh = Some isDesignSetUp"
  shows "BaseRF_Gap_track inh TPB_drift gap 1 b cav =
           (None,
            b\<lparr>sync_kinEnergy := sync_kinEnergy b + E0TL gap * cos
                (if isDesignSetUp cav
                 then fmod (frequency cav * (sync_time b - designArrivalTime cav) * 2 * pi + (phase cav + modePhase gap * pi)) (2 * pi)
                 else phase cav + modePhase gap * pi)\<rparr>,
            cav\<lparr>firstGapTime := sync_time b\<rparr>)"
  using first parts freq ds
  by (simp add: BaseRF_Gap_track_def getLength_part_def Let_def)

section \<open>Properties of the tilt children\<close>

text \<open>
  Claim C8. The two tilt children are created with the angles \<open>0\<close> and \<open>-0\<close>. The claim
  asks every \<^verbatim>\<open>setTiltAngle(theta)\<close> to leave the angles \<open>theta\<close> and \<open>-theta\<close>; in the source
  the first statement of \<^verbatim>\<open>setTiltAngle\<close> reads the attribute \<^verbatim>\<open>self.__params\<close>, which the
  node does not have, so the call raises \<^verbatim>\<open>AttributeError\<close> and both angles stay \<open>0\<close>.
\<close>

theorem setTiltAngle_raises:
  "tiltNodeIN LinacNode_init = 0 \<and> tiltNodeOUT LinacNode_init = - 0 \<and>
   setTiltAngle angle LinacNode_init = (Some (AttributeError ''_LinacNode__params''), LinacNode_init)"
  by (simp add: setTiltAngle_def LinacNode_init_def TiltElement_init_def Let_def)

text \<open>With the attribute present the two assignments that follow set opposite angles.\<close>

lemma setTiltAngle_with_params:
  "LinacNode_params node = Some d \<Longrightarrow>
   \<exists>node'. setTiltAngle angle node = (None, node') \<and> tiltNodeIN node' = angle \<and> tiltNodeOUT node' = - angle"
  by (simp add: setTiltAngle_def)

section \<open>Properties of the lookup by name\<close>

lemma getRF_Cavity_None: "getRF_Cavity getName cavs name = None \<longleftrightarrow> (\<forall>i < length cavs. getName (cavs ! i) \<noteq> name)"
proof (induction cavs)
  case Nil
  then show ?case by simp
next
  case (Cons c cavs)
  show ?case
  proof (cases "name = getName c")
    case True
    then show ?thesis by auto
  next
    case False
    then show ?thesis using Cons.IH by (auto simp: nth_Cons' All_less_Suc2)
  qed
qed


lemma getRF_Cavity_Some:
  "getRF_Cavity getName cavs name = Some c \<Longrightarrow>
     \<exists>i < length cavs. cavs ! i = c \<and> getName c = name \<and> (\<forall>j < i. getName (cavs ! j) \<noteq> name)"
proof (induction cavs)
  case Nil
  then show ?case by simp
next
  case (Cons a cavs)
  show ?case
  proof (cases "name = getName a")
    case True
    then have "c = a" using Cons.prems by simp
    then have "0 < length (a # cavs) \<and> (a # cavs) ! 0 = c \<and> getName c = name \<and>
               (\<forall>j < 0. getName ((a # cavs) ! j) \<noteq> name)"
      using True by simp
    then show ?thesis by blast
  next
    case False
    then have "getRF_Cavity getName cavs name = Some c" using Cons.prems by simp
    then obtain i where i: "i < length cavs" "cavs ! i = c" "getName c = name"
        "\<forall>j < i. getName (cavs ! j) \<noteq> name"
      using Cons.IH by blast
    have "\<forall>j < Suc i. getName ((a # cavs) ! j) \<noteq> name"
      using i(4) False by (auto simp: nth_Cons' less_Suc_eq_0_disj)
    then have "Suc i < length (a # cavs) \<and> (a # cavs) ! Suc i = c \<and> getName c = name \<and>
               (\<forall>j < Suc i. getName ((a # cavs) ! j) \<noteq> name)"
      using i by simp
    then show ?thesis by blast
  qed
qed

lemma getSequence_eq: "getSequence getName seqs name = getRF_Cavity getName seqs name"
  by (induction seqs) simp_all

lemma getRF_Cavity_cases:
  "(case getRF_Cavity g xs name of
      None \<Rightarrow> \<forall>i < length xs. g (xs ! i) \<noteq> name
    | Some c \<Rightarrow> \<exists>i < length xs. xs ! i = c \<and> g c = name \<and>
                   (\<forall>j < i. g (xs ! j) \<noteq> name))"
proof (cases "getRF_Cavity g xs name")
  case None
  then show ?thesis using getRF_Cavity_None[of g xs name] by simp
next
  case (Some c)
  then show ?thesis using getRF_Cavity_Some[of g xs name c] by simp
qed

text \<open>
  Claim C10. \<^verbatim>\<open>getRF_Cavity(name)\<close> and \<^verbatim>\<open>getSequence(name)\<close> return the first stored cavity
  or sequence whose name equals the argument (no earlier one has that name), and return
  \<^verbatim>\<open>None\<close>, without failing, exactly when no stored one has that name.
\<close>

theorem lattice_lookup_by_name:
  "(case getRF_Cavity cavName cavs name of
      None \<Rightarrow> \<forall>i < length cavs. cavName (cavs ! i) \<noteq> name
    | Some c \<Rightarrow> \<exists>i < length cavs. cavs ! i = c \<and> cavName c = name \<and>
                   (\<forall>j < i. cavName (cavs ! j) \<noteq> name)) \<and>
   (case getSequence seqName seqs name of
      None \<Rightarrow> \<forall>i < length seqs. seqName (seqs ! i) \<noteq> name
    | Some s \<Rightarrow> \<exists>i < length seqs. seqs ! i = s \<and> seqName s = name \<and>
                   (\<forall>j < i. seqName (seqs ! j) \<noteq> name))"
  using getRF_Cavity_cases[where g = cavName and xs = cavs and name = name]
    getRF_Cavity_cases[where g = seqName and xs = seqs and name = name]
  by (simp add: getSequence_eq)

text \<open>Three stored objects named a, b, b: the lookup of b gives the second, the lookup of c
  gives nothing.\<close>

theorem lattice_lookup_by_name_witness:
  "getRF_Cavity fst [(''a'', 1::nat), (''b'', 2), (''b'', 3)] ''b'' = Some (''b'', 2) \<and>
   getRF_Cavity fst [(''a'', 1::nat), (''b'', 2), (''b'', 3)] ''c'' = None \<and>
   getSequence fst [(''a'', 1::nat), (''b'', 2), (''b'', 3)] ''b'' = Some (''b'', 2) \<and>
   getSequence fst [(''a'', 1::nat), (''b'', 2), (''b'', 3)] ''c'' = None \<and>
   (\<exists>i < length [(''a'', 1::nat), (''b'', 2), (''b'', 3)].
      [(''a'', 1::nat), (''b'', 2), (''b'', 3)] ! i = (''b'', 2) \<and>
      (\<forall>j < i. fst ([(''a'', 1::nat), (''b'', 2), (''b'', 3)] ! j) \<noteq> ''b''))"
  using lattice_lookup_by_name[where cavName = fst and cavs = "[(''a'', 1::nat), (''b'', 2), (''b'', 3)]"
      and name = "''b''" and seqName = fst and seqs = "[(''a'', 1::nat), (''b'', 2), (''b'', 3)]"]
  by simp

section \<open>Properties of the drift insertion\<close>





lemma Drift_new_simps [simp]:
  "n_id (Drift_new i s len pos) = i"
  "n_kind (Drift_new i s len pos) = Drift"
  "n_pos (Drift_new i s len pos) = pos"
  "n_length (Drift_new i s len pos) = len"
  by (simp_all add: Drift_new_def AccNode_new_def)
















text \<open>The definitions that evaluate the factory on a concrete element list.\<close>

lemmas factory_eval = build_sequence_def scan_QUAD_def scan_RFGAP_def new_cavity_def addRF_GapNode_def
  AccNode_new_def insert_drifts_def first_drift_def last_drift_def Drift_new_def insert_at_def
  zeroDistance_def getDriftThinNode_def place_in_drift_def thin_accNode_def thin_child_def thin_kind_def
  Let_def



section \<open>Properties of the cavity grouping\<close>

text \<open>An RF gap whose cavity name is new in the sequence creates the cavity, with the
  frequency of the sequence and both phases set to the gap's first phase in radians, and
  is its first gap.\<close>

lemma scan_RFGAP_new_cavity:
  assumes "p_parentCavity node \<notin> set (rf_cav_names st)"
  shows "\<exists>gap. scan_RFGAP f node st =
           Inr (st\<lparr>accNodes := accNodes st @ [gap],
                    accRF_Cavs := accRF_Cavs st @
                      [(new_cavity (p_parentCavity node) ((pi / 180) * p_firstPhase node) f)\<lparr>rfGaps := [gap]\<rparr>],
                    rf_cav_names := rf_cav_names st @ [p_parentCavity node],
                    next_id := next_id st + 1\<rparr>) \<and>
           n_name gap = p_name node \<and> n_isFirstGap gap \<and>
           n_rfCavity gap = Some (length (accRF_Cavs st)) \<and>
           n_firstPhase gap = (pi / 180) * p_firstPhase node"
proof -
  define gap where "gap = (AccNode_new (next_id st) BaseRF_Gap (p_name node))
            \<lparr>n_pos := p_pos node, n_length := p_gapLength node,
             n_gapOffset := p_gapOffset node, n_amp := p_amp node,
             n_E0TL := (1 / 1000) * p_E0TL node, n_modePhase := p_modePhase node,
             n_firstPhase := (pi / 180) * p_firstPhase node,
             n_isFirstGap := True, n_rfCavity := Some (length (accRF_Cavs st))\<rparr>"
  have "scan_RFGAP f node st =
           Inr (st\<lparr>accNodes := accNodes st @ [gap],
                    accRF_Cavs := accRF_Cavs st @
                      [(new_cavity (p_parentCavity node) ((pi / 180) * p_firstPhase node) f)\<lparr>rfGaps := [gap]\<rparr>],
                    rf_cav_names := rf_cav_names st @ [p_parentCavity node],
                    next_id := next_id st + 1\<rparr>)"
    using assms
    by (simp add: gap_def scan_RFGAP_def addRF_GapNode_def new_cavity_def AccNode_new_def Let_def nth_append)
  moreover have "n_name gap = p_name node \<and> n_isFirstGap gap \<and>
           n_rfCavity gap = Some (length (accRF_Cavs st)) \<and>
           n_firstPhase gap = (pi / 180) * p_firstPhase node"
    by (simp add: gap_def AccNode_new_def)
  ultimately show ?thesis by blast
qed

text \<open>An RF gap whose cavity name was seen before in the sequence is appended to the last
  cavity of the list, whatever its name, and is a first gap only if that cavity had no
  gap.\<close>

lemma scan_RFGAP_known_cavity:
  assumes "p_parentCavity node \<in> set (rf_cav_names st)" and "accRF_Cavs st \<noteq> []"
  shows "\<exists>gap. scan_RFGAP f node st =
           Inr (st\<lparr>accNodes := accNodes st @ [gap],
                    accRF_Cavs := (accRF_Cavs st)[length (accRF_Cavs st) - 1 :=
                      (last (accRF_Cavs st))\<lparr>rfGaps := rfGaps (last (accRF_Cavs st)) @ [gap]\<rparr>],
                    rf_cav_names := rf_cav_names st,
                    next_id := next_id st + 1\<rparr>) \<and>
           n_name gap = p_name node \<and>
           n_isFirstGap gap = (rfGaps (last (accRF_Cavs st)) = []) \<and>
           n_rfCavity gap = Some (length (accRF_Cavs st) - 1) \<and>
           n_firstPhase gap = p_firstPhase node"
proof -
  define gap where "gap = (AccNode_new (next_id st) BaseRF_Gap (p_name node))
            \<lparr>n_pos := p_pos node, n_length := p_gapLength node,
             n_gapOffset := p_gapOffset node, n_amp := p_amp node,
             n_E0TL := (1 / 1000) * p_E0TL node, n_modePhase := p_modePhase node,
             n_firstPhase := p_firstPhase node,
             n_isFirstGap := (rfGaps (last (accRF_Cavs st)) = []),
             n_rfCavity := Some (length (accRF_Cavs st) - 1)\<rparr>"
  have "scan_RFGAP f node st =
           Inr (st\<lparr>accNodes := accNodes st @ [gap],
                    accRF_Cavs := (accRF_Cavs st)[length (accRF_Cavs st) - 1 :=
                      (last (accRF_Cavs st))\<lparr>rfGaps := rfGaps (last (accRF_Cavs st)) @ [gap]\<rparr>],
                    rf_cav_names := rf_cav_names st,
                    next_id := next_id st + 1\<rparr>)"
    using assms
    by (simp add: gap_def scan_RFGAP_def addRF_GapNode_def AccNode_new_def Let_def last_conv_nth)
  moreover have "n_name gap = p_name node \<and>
           n_isFirstGap gap = (rfGaps (last (accRF_Cavs st)) = []) \<and>
           n_rfCavity gap = Some (length (accRF_Cavs st) - 1) \<and>
           n_firstPhase gap = p_firstPhase node"
    by (simp add: gap_def AccNode_new_def)
  ultimately show ?thesis by blast
qed

text \<open>
  Claim C4. The claim asks that a later RF gap naming a cavity is appended to the cavity
  of that name, also when the gaps of two cavities are interleaved. The source appends
  every gap to the last cavity of its list: for the gaps a1 (cavity A), b1 (cavity B),
  a2 (cavity A) the gap a2 joins cavity B, whose index it gets as its cavity. The two first
  gaps are flagged as first and a2 is not.
\<close>

theorem interleaved_gaps_join_last_cavity:
  "map_sum id (\<lambda>lat. (map (\<lambda>c. (cav_name c, map n_name (rfGaps c))) (lattice_rfCavities lat),
                        map (\<lambda>n. (n_name n, n_isFirstGap n, n_rfCavity n))
                          (filter (\<lambda>n. n_kind n = BaseRF_Gap) (lattice_nodes lat))))
     (getLinacAccLattice [\<lparr>ps_name = ''s'', ps_length = 10, ps_rfFrequency = 1, ps_nodes =
       [\<lparr>p_type = ''RFGAP'', p_name = ''a1'', p_pos = 1, p_length = 0, p_field = 0,
        p_gapOffset = 0, p_gapLength = 0, p_amp = 0, p_E0TL = 0, p_modePhase = 0, p_firstPhase = 0,
        p_parentCavity = ''A'', p_effLength = 0\<rparr>,
        \<lparr>p_type = ''RFGAP'', p_name = ''b1'', p_pos = 2, p_length = 0, p_field = 0,
        p_gapOffset = 0, p_gapLength = 0, p_amp = 0, p_E0TL = 0, p_modePhase = 0, p_firstPhase = 0,
        p_parentCavity = ''B'', p_effLength = 0\<rparr>,
        \<lparr>p_type = ''RFGAP'', p_name = ''a2'', p_pos = 3, p_length = 0, p_field = 0,
        p_gapOffset = 0, p_gapLength = 0, p_amp = 0, p_E0TL = 0, p_modePhase = 0, p_firstPhase = 0,
        p_parentCavity = ''A'', p_effLength = 0\<rparr>]\<rparr>] [''s'']) =
   Inr ([(''A'', [''a1'']), (''B'', [''b1'', ''a2''])],
        [(''a1'', True, Some 0), (''b1'', True, Some 1), (''a2'', False, Some 1)])"
  by (simp add: getLinacAccLattice_def factory_eval)

section \<open>Properties of the two tracking passes\<close>

text \<open>A pass changes the store only at the address that \<^verbatim>\<open>paramsDict["bunch"]\<close> holds, and
  does there what the nodes do to the bunch value.\<close>

lemma trackActions_steps:
  assumes "paramsDict ''bunch'' = Some a"
  shows "trackActions f paramsDict nodes w =
           (case track_steps f nodes (heap w a) (cavities w) of
              (e, b', c') \<Rightarrow> (e, w\<lparr>heap := (heap w)(a := b'), cavities := c'\<rparr>))"
proof (induction nodes arbitrary: w)
  case Nil
  have "(heap w)(a := heap w a) = heap w" by (rule fun_upd_triv)
  then have "w\<lparr>heap := (heap w)(a := heap w a), cavities := cavities w\<rparr> = w" by simp
  then show ?case by (simp del: fun_upd_apply)
next
  case (Cons node nodes)
  obtain e b1 c1 where step: "f node (heap w a) (cavities w) = (e, b1, c1)"
    by (cases "f node (heap w a) (cavities w)") auto
  let ?w1 = "w\<lparr>heap := (heap w)(a := b1), cavities := c1\<rparr>"
  have act: "node_action f paramsDict node w = (e, ?w1)"
    using assms step by (simp add: node_action_def)
  show ?case
  proof (cases e)
    case None
    have "trackActions f paramsDict (node # nodes) w = trackActions f paramsDict nodes ?w1"
      using act None by simp
    also have "\<dots> = (case track_steps f nodes b1 c1 of
              (e, b', c') \<Rightarrow> (e, w\<lparr>heap := (heap w)(a := b'), cavities := c'\<rparr>))"
    proof -
      obtain e' b'' c'' where r: "track_steps f nodes b1 c1 = (e', b'', c'')"
        by (cases "track_steps f nodes b1 c1") auto
      have "trackActions f paramsDict nodes ?w1 =
              (e', w\<lparr>heap := (heap w)(a := b''), cavities := c''\<rparr>)"
        using Cons.IH[of ?w1] r by (cases w) (simp add: fun_eq_iff)
      then show ?thesis using r by (simp only: prod.case)
    qed
    finally have ta: "trackActions f paramsDict (node # nodes) w =
        (case track_steps f nodes b1 c1 of
              (e, b', c') \<Rightarrow> (e, w\<lparr>heap := (heap w)(a := b'), cavities := c'\<rparr>))" .
    have ts: "track_steps f (node # nodes) (heap w a) (cavities w) = track_steps f nodes b1 c1"
      using step None by simp
    show ?thesis unfolding ts by (rule ta)
  next
    case (Some err)
    have ta: "trackActions f paramsDict (node # nodes) w = (Some err, ?w1)"
      using act Some by simp
    have ts: "track_steps f (node # nodes) (heap w a) (cavities w) = (Some err, b1, c1)"
      using step Some by simp
    show ?thesis unfolding ts ta by (simp only: prod.case)
  qed
qed

text \<open>
  Claim C9. \<^verbatim>\<open>trackDesignBunch\<close> tracks a bunch that it creates and fills from the supplied
  one: the supplied bunch, and every other bunch that existed before the call, is
  unchanged (its coordinates too), the new bunch holds what the design tracking of the
  nodes makes of the empty copy with time 0, and the cavities hold what that tracking
  makes of them. \<^verbatim>\<open>trackBunch\<close> works on the supplied bunch itself: after the call the
  supplied bunch holds what the tracking of the nodes makes of it, starting at time 0.
  Both hold as well when a node raises an exception.
\<close>

theorem design_pass_leaves_caller_bunch:
  assumes "bunch_in < next_free w"
  shows "heap (snd (trackDesignBunch D cp nodes bunch_in pd w)) bunch_in = heap w bunch_in \<and>
         (\<forall>a. a \<noteq> next_free w \<longrightarrow> heap (snd (trackDesignBunch D cp nodes bunch_in pd w)) a = heap w a) \<and>
         (fst (trackDesignBunch D cp nodes bunch_in pd w),
          heap (snd (trackDesignBunch D cp nodes bunch_in pd w)) (next_free w),
          cavities (snd (trackDesignBunch D cp nodes bunch_in pd w)))
           = track_steps D nodes ((cp (heap w bunch_in) Bunch_init)\<lparr>sync_time := 0\<rparr>) (cavities w) \<and>
         (fst (trackBunch T nodes bunch_in pd' w),
          heap (snd (trackBunch T nodes bunch_in pd' w)) bunch_in,
          cavities (snd (trackBunch T nodes bunch_in pd' w)))
           = track_steps T nodes ((heap w bunch_in)\<lparr>sync_time := 0\<rparr>) (cavities w)"
proof -
  have ne: "bunch_in \<noteq> next_free w" using assms by simp
  define b0 where "b0 = (cp (heap w bunch_in) Bunch_init)\<lparr>sync_time := 0\<rparr>"
  define w3 where "w3 = w\<lparr>next_free := Suc (next_free w), heap := (heap w)(next_free w := b0)\<rparr>"
  define pd1 where "pd1 = (case pd of None \<Rightarrow> Map.empty | Some d \<Rightarrow> d)(''bunch'' \<mapsto> next_free w)"
  have d: "trackDesignBunch D cp nodes bunch_in pd w = trackActions D pd1 nodes w3"
    using ne by (simp add: trackDesignBunch_def Let_def w3_def b0_def pd1_def)
  have pd1: "pd1 ''bunch'' = Some (next_free w)" by (simp add: pd1_def)
  obtain e b' c' where st: "track_steps D nodes b0 (cavities w) = (e, b', c')"
    by (cases "track_steps D nodes b0 (cavities w)") auto
  have dres: "trackDesignBunch D cp nodes bunch_in pd w =
                (e, w3\<lparr>heap := (heap w3)(next_free w := b'), cavities := c'\<rparr>)"
    using d trackActions_steps[where paramsDict = pd1 and a = "next_free w" and f = D and nodes = nodes and w = w3, OF pd1] st
    by (simp add: w3_def)
  define w1 where "w1 = w\<lparr>heap := (heap w)(bunch_in := (heap w bunch_in)\<lparr>sync_time := 0\<rparr>)\<rparr>"
  have t: "trackBunch T nodes bunch_in pd' w = trackActions T (pd'(''bunch'' \<mapsto> bunch_in)) nodes w1"
    by (simp add: trackBunch_def Let_def w1_def)
  obtain e2 b2 c2 where st2: "track_steps T nodes ((heap w bunch_in)\<lparr>sync_time := 0\<rparr>) (cavities w) = (e2, b2, c2)"
    by (cases "track_steps T nodes ((heap w bunch_in)\<lparr>sync_time := 0\<rparr>) (cavities w)") auto
  have tres: "trackBunch T nodes bunch_in pd' w =
                (e2, w1\<lparr>heap := (heap w1)(bunch_in := b2), cavities := c2\<rparr>)"
    using t trackActions_steps[where paramsDict = "pd'(''bunch'' \<mapsto> bunch_in)" and a = bunch_in and f = T and nodes = nodes and w = w1] st2
    by (simp add: w1_def)
  show ?thesis
    using dres tres st st2 ne by (simp add: w3_def w1_def b0_def)
qed

text \<open>Two nodes that advance the time by 1 and by 2 and drop the coordinates: the design pass
  leaves the supplied bunch (time 7, one particle) as it was and fills a new bunch; the
  tracking pass overwrites the supplied bunch.\<close>

theorem design_pass_leaves_caller_bunch_witness:
  "(0::nat) < next_free \<lparr>heap = (\<lambda>a. \<lparr>sync_time = 7, sync_kinEnergy = 1, coords = [[1, 2]]\<rparr>), next_free = 1, cavities = ()\<rparr> \<and>
   heap (snd (trackDesignBunch (\<lambda>n b c. (None, b\<lparr>sync_time := sync_time b + n, coords := []\<rparr>, c)) (\<lambda>src dst. src\<lparr>coords := []\<rparr>)
                [1, 2] 0 None
                \<lparr>heap = (\<lambda>a. \<lparr>sync_time = 7, sync_kinEnergy = 1, coords = [[1, 2]]\<rparr>), next_free = 1, cavities = ()\<rparr>)) 0
     = \<lparr>sync_time = 7, sync_kinEnergy = 1, coords = [[1, 2]]\<rparr> \<and>
   heap (snd (trackDesignBunch (\<lambda>n b c. (None, b\<lparr>sync_time := sync_time b + n, coords := []\<rparr>, c)) (\<lambda>src dst. src\<lparr>coords := []\<rparr>)
                [1, 2] 0 None
                \<lparr>heap = (\<lambda>a. \<lparr>sync_time = 7, sync_kinEnergy = 1, coords = [[1, 2]]\<rparr>), next_free = 1, cavities = ()\<rparr>)) 1
     = \<lparr>sync_time = 3, sync_kinEnergy = 1, coords = []\<rparr> \<and>
   heap (snd (trackBunch (\<lambda>n b c. (None, b\<lparr>sync_time := sync_time b + n, coords := []\<rparr>, c))
                [1, 2] 0 Map.empty
                \<lparr>heap = (\<lambda>a. \<lparr>sync_time = 7, sync_kinEnergy = 1, coords = [[1, 2]]\<rparr>), next_free = 1, cavities = ()\<rparr>)) 0
     = \<lparr>sync_time = 3, sync_kinEnergy = 1, coords = []\<rparr>"
proof -
  let ?w = "\<lparr>heap = (\<lambda>a. \<lparr>sync_time = 7, sync_kinEnergy = 1, coords = [[1, 2]]\<rparr>), next_free = 1, cavities = ()\<rparr>"
  have h: "(0::nat) < next_free ?w" by simp
  from design_pass_leaves_caller_bunch[OF h,
      where D = "\<lambda>n b c. (None, b\<lparr>sync_time := sync_time b + n, coords := []\<rparr>, c)"
        and cp = "\<lambda>src dst. src\<lparr>coords := []\<rparr>" and nodes = "[1, 2]" and pd = None
        and T = "\<lambda>n b c. (None, b\<lparr>sync_time := sync_time b + n, coords := []\<rparr>, c)"
        and pd' = Map.empty]
  show ?thesis by simp
qed

end
